theory Spec2Isabelle
  imports Main
begin

section \<open>Strings, formatting and errors of the Go runtime\<close>

text \<open>
  Go strings are byte sequences; they are modelled as \<open>string\<close>, the empty Go string
  \<^verbatim>\<open>""\<close> being \<open>[]\<close>.

  \<open>format\<close> is the part of \<^verbatim>\<open>fmt.Sprintf\<close> that \<^verbatim>\<open>command.go\<close> relies on: every format
  string of the file is a literal whose only verbs are \<^verbatim>\<open>%s\<close> and \<^verbatim>\<open>%w\<close>, each consuming
  the next operand and printing its text. A verb with no operand left prints Go's
  \<^verbatim>\<open>%!s(MISSING)\<close> marker, a \<^verbatim>\<open>%\<close> that ends the format prints \<^verbatim>\<open>%!(NOVERB)\<close>, and
  operands left over at the end print the \<^verbatim>\<open>%!(EXTRA ...)\<close> marker. Bytes outside a verb
  are copied. Other verbs do not occur in the file and are outside this fragment.
\<close>

fun intercalate :: "string \<Rightarrow> string list \<Rightarrow> string" where
  "intercalate sep [] = []"
| "intercalate sep [x] = x"
| "intercalate sep (x # y # ys) = x @ sep @ intercalate sep (y # ys)"

fun format :: "string \<Rightarrow> string list \<Rightarrow> string" where
  "format [] [] = []"
| "format [] (a # as) =
     ''%!(EXTRA '' @ intercalate '', '' (map (\<lambda>x. ''string='' @ x) (a # as)) @ '')''"
| "format [c] as = (if c = CHR ''%'' then ''%!(NOVERB)'' else [c]) @ format [] as"
| "format (c # v # f) as =
     (if c = CHR ''%'' \<and> (v = CHR ''s'' \<or> v = CHR ''w'') then
        (case as of
           [] \<Rightarrow> ''%!'' @ [v] @ ''(MISSING)'' @ format f []
         | a # as' \<Rightarrow> a @ format f as')
      else c # format (v # f) as)"

definition fmt_Sprintf :: "string \<Rightarrow> string list \<Rightarrow> string" where
  "fmt_Sprintf f as = format f as"

text \<open>
  A Go \<^verbatim>\<open>error\<close> value. \<open>errorString\<close> is what \<^verbatim>\<open>errors.New\<close> and a \<^verbatim>\<open>fmt.Errorf\<close> without
  \<^verbatim>\<open>%w\<close> build, \<open>wrapError\<close> what \<^verbatim>\<open>fmt.Errorf\<close> with a \<^verbatim>\<open>%w\<close> operand builds (its text and
  the wrapped error), and \<open>externalError\<close> stands for an error produced outside this
  file (the operating system, git, the container layer): its text, and whether
  \<^verbatim>\<open>os.IsNotExist\<close> holds of it. The nil error is \<open>None\<close> of \<open>error option\<close>.
\<close>

datatype error =
    errorString string
  | wrapError string error
  | externalError string bool

fun Error :: "error \<Rightarrow> string" where
  "Error (errorString s) = s"
| "Error (wrapError s e) = s"
| "Error (externalError s b) = s"

definition errors_New :: "string \<Rightarrow> error" where
  "errors_New s = errorString s"

text \<open>\<^verbatim>\<open>fmt.Errorf\<close> with \<^verbatim>\<open>%s\<close> operands only.\<close>

definition fmt_Errorf :: "string \<Rightarrow> string list \<Rightarrow> error" where
  "fmt_Errorf f as = errorString (format f as)"

text \<open>
  \<^verbatim>\<open>fmt.Errorf\<close> whose last verb is \<^verbatim>\<open>%w\<close> with the error \<open>e\<close> as its operand: the text
  holds \<open>e\<close>'s text at that place, and the result wraps \<open>e\<close>.
\<close>

definition fmt_Errorf_w :: "string \<Rightarrow> string list \<Rightarrow> error \<Rightarrow> error" where
  "fmt_Errorf_w f as e = wrapError (format f (as @ [Error e])) e"

text \<open>
  \<^verbatim>\<open>os.IsNotExist\<close>: false of the nil error and of every error that does not come from
  the \<^verbatim>\<open>os\<close> package.
\<close>

fun os_IsNotExist :: "error option \<Rightarrow> bool" where
  "os_IsNotExist (Some (externalError s b)) = b"
| "os_IsNotExist _ = False"

text \<open>\<^verbatim>\<open>slices.Contains\<close>: a linear scan from the front.\<close>

fun slices_Contains :: "'a list \<Rightarrow> 'a \<Rightarrow> bool" where
  "slices_Contains [] v = False"
| "slices_Contains (x # xs) v = (if x = v then True else slices_Contains xs v)"

section \<open>Time stamps\<close>

text \<open>
  A \<^verbatim>\<open>time.Time\<close> is an instant together with a location. The record keeps the instant
  as seconds since the Unix epoch plus the nanoseconds within the second, and of the
  location the offset east of UTC, in seconds, in force at that instant.
  \<^verbatim>\<open>time.Now()\<close> carries the process's local zone; \<^verbatim>\<open>t.UTC()\<close> is the same instant with
  offset 0.
\<close>

record Time =
  unixSec :: int
  nsec :: nat
  zoneOffset :: int

definition Time_UTC :: "Time \<Rightarrow> Time" where
  "Time_UTC t = t\<lparr>zoneOffset := 0\<rparr>"

record clock =
  year :: int
  month :: int
  day :: int
  hour :: int
  minute :: int
  second :: int

text \<open>The proleptic Gregorian date of a day number counted from 1970-01-01.\<close>

definition civil_from_days :: "int \<Rightarrow> int \<times> int \<times> int" where
  "civil_from_days z0 =
     (let z = z0 + 719468;
          era = z div 146097;
          doe = z mod 146097;
          yoe = (doe - doe div 1460 + doe div 36524 - doe div 146096) div 365;
          y = yoe + era * 400;
          doy = doe - (365 * yoe + yoe div 4 - yoe div 100);
          mp = (5 * doy + 2) div 153;
          d = doy - (153 * mp + 2) div 5 + 1;
          m = (if mp < 10 then mp + 3 else mp - 9)
      in (if m \<le> 2 then y + 1 else y, m, d))"

text \<open>
  The wall clock that \<^verbatim>\<open>Time.Format\<close> prints: date and time of day of the instant in the
  time's own location. The seconds are unbounded integers here. Package \<^verbatim>\<open>time\<close> counts
  them in 64 bits, which wrap for instants some 292 billion years away from the epoch
  (such as \<^verbatim>\<open>time.Unix(math.MinInt64, 0)\<close>); the record stands for the instants inside
  that range, where the two agree, and these include every value of \<^verbatim>\<open>time.Now()\<close>.
\<close>

definition Time_clock :: "Time \<Rightarrow> clock" where
  "Time_clock t =
     (let wall = unixSec t + zoneOffset t;
          (y, m, d) = civil_from_days (wall div 86400);
          s = wall mod 86400
      in \<lparr>year = y, month = m, day = d,
          hour = s div 3600, minute = s mod 3600 div 60, second = s mod 60\<rparr>)"

fun digits :: "nat \<Rightarrow> string" where
  "digits n =
     (if n < 10 then [''0123456789'' ! n]
      else digits (n div 10) @ [''0123456789'' ! (n mod 10)])"

declare digits.simps [simp del]

text \<open>\<^verbatim>\<open>appendInt\<close> of package \<^verbatim>\<open>time\<close>: decimal, zero-padded to \<open>width\<close>, sign in front.\<close>

definition appendInt :: "int \<Rightarrow> nat \<Rightarrow> string" where
  "appendInt x width =
     (let ds = digits (nat \<bar>x\<bar>)
      in (if x < 0 then ''-'' else []) @ replicate (width - length ds) CHR ''0'' @ ds)"

text \<open>
  The layout chunks of \<^verbatim>\<open>Time.Format\<close> that the layout of \<^verbatim>\<open>formatTimestamp\<close> is made of:
  \<^verbatim>\<open>2006\<close> (year, four digits), \<^verbatim>\<open>01\<close> (month), \<^verbatim>\<open>02\<close> (day), \<^verbatim>\<open>15\<close> (hour), \<^verbatim>\<open>04\<close> (minute)
  and \<^verbatim>\<open>05\<close> (second), two digits each. Every other byte of that layout is printed as
  it is: a \<^verbatim>\<open>Z\<close> is a zone chunk only when \<^verbatim>\<open>07\<close> follows it, so the final \<^verbatim>\<open>Z\<close> is a
  literal letter. The other chunks of Go layouts are outside this fragment.
\<close>

fun Time_layout :: "clock \<Rightarrow> string \<Rightarrow> string" where
  "Time_layout c [] = []"
| "Time_layout c (x # l) =
     (if take 4 (x # l) = ''2006'' then appendInt (year c) 4 @ Time_layout c (drop 3 l)
      else if take 2 (x # l) = ''01'' then appendInt (month c) 2 @ Time_layout c (drop 1 l)
      else if take 2 (x # l) = ''02'' then appendInt (day c) 2 @ Time_layout c (drop 1 l)
      else if take 2 (x # l) = ''15'' then appendInt (hour c) 2 @ Time_layout c (drop 1 l)
      else if take 2 (x # l) = ''04'' then appendInt (minute c) 2 @ Time_layout c (drop 1 l)
      else if take 2 (x # l) = ''05'' then appendInt (second c) 2 @ Time_layout c (drop 1 l)
      else x # Time_layout c l)"

definition Time_Format :: "Time \<Rightarrow> string \<Rightarrow> string" where
  "Time_Format t layout = Time_layout (Time_clock t) layout"

definition formatTimestamp :: "Time \<Rightarrow> string" where
  "formatTimestamp t = Time_Format t ''20060102T150405Z''"

section \<open>Paths\<close>

text \<open>\<^verbatim>\<open>strings.TrimSuffix\<close> and \<^verbatim>\<open>path.Base\<close>.\<close>

definition strings_TrimSuffix :: "string \<Rightarrow> string \<Rightarrow> string" where
  "strings_TrimSuffix s suffix =
     (if length suffix \<le> length s \<and> drop (length s - length suffix) s = suffix
      then take (length s - length suffix) s
      else s)"

definition path_Base :: "string \<Rightarrow> string" where
  "path_Base p =
     (if p = [] then ''.''
      else
        let stripped = rev (dropWhile (\<lambda>c. c = CHR ''/'') (rev p));
            element = rev (takeWhile (\<lambda>c. c \<noteq> CHR ''/'') (rev stripped))
        in if element = [] then ''/'' else element)"

section \<open>Pipeline state\<close>

text \<open>
  \<^verbatim>\<open>statepb.PipelineState\<close> and \<^verbatim>\<open>statepb.LibraryState\<close> are declared outside
  \<^verbatim>\<open>command.go\<close>; the records hold the fields the file reads. A \<^verbatim>\<open>*statepb.PipelineState\<close>
  is a \<open>PipelineState option\<close>, \<open>None\<close> being the nil pointer. \<open>Libraries\<close> is a slice
  of pointers, \<^verbatim>\<open>[]*statepb.LibraryState\<close> (\<^verbatim>\<open>findLibraryByID\<close> returns an entry as a
  \<^verbatim>\<open>*statepb.LibraryState\<close>), so an entry is a \<open>LibraryState option\<close> and may be nil. The
  field \<^verbatim>\<open>Id\<close> of a library is \<open>Id_lib\<close>, \<open>Id\<close> being the identity relation of HOL.
\<close>

record LibraryState =
  Id_lib :: string
  ApiPaths :: "string list"

record PipelineState =
  ImageTag :: string
  Libraries :: "LibraryState option list"

section \<open>The world outside the file\<close>

text \<open>
  \<^verbatim>\<open>command.go\<close> works through the clock, the file system, package \<^verbatim>\<open>gitrepo\<close>, package
  \<^verbatim>\<open>docker\<close> and the functions \<open>isUrl\<close> and \<open>loadRepoStateAndConfig\<close> of its own package,
  none of which it defines. They are the fields of \<open>externals\<close>, over a state \<open>'w\<close> of
  the world that each call reads and, where it acts, returns changed. A Go function
  returning a value and an error returns the pair of both: either may be nil.

  \<open>'r\<close> is what a non-nil \<^verbatim>\<open>*gitrepo.Repository\<close> points to, \<open>'st\<close> the status that
  \<open>AddAll\<close> returns, \<open>'c\<close> and \<open>'d\<close> what a non-nil \<^verbatim>\<open>*statepb.PipelineConfig\<close> and
  \<^verbatim>\<open>*docker.Docker\<close> point to; a pointer is an \<open>option\<close>, nil being \<open>None\<close>.
  \<^verbatim>\<open>filepath.Join\<close> cleans the joined path lexically and is kept as a parameter too.
  The \<^verbatim>\<open>slog.Info\<close> calls only write to the process log and are left out.
\<close>

record RepositoryOptions =
  Dir :: string
  MaybeClone :: bool
  RemoteURL :: string
  CI :: string

record ('w, 'r, 'st, 'c, 'd) externals =
  time_Now :: "'w \<Rightarrow> Time"
  os_TempDir :: "'w \<Rightarrow> string"
  os_Stat :: "string \<Rightarrow> 'w \<Rightarrow> error option"
  os_Mkdir :: "string \<Rightarrow> nat \<Rightarrow> 'w \<Rightarrow> error option \<times> 'w"
  filepath_Join :: "string \<Rightarrow> string \<Rightarrow> string"
  filepath_Abs :: "string \<Rightarrow> 'w \<Rightarrow> string \<times> error option"
  isUrl :: "string \<Rightarrow> bool"
  gitrepo_NewRepository :: "RepositoryOptions \<Rightarrow> 'w \<Rightarrow> ('r option \<times> error option) \<times> 'w"
  Repository_IsClean :: "'r option \<Rightarrow> 'w \<Rightarrow> (bool \<times> error option) \<times> 'w"
  Repository_AddAll :: "'r option \<Rightarrow> 'w \<Rightarrow> ('st \<times> error option) \<times> 'w"
  Status_IsClean :: "'st \<Rightarrow> bool"
  Repository_Commit :: "'r option \<Rightarrow> string \<Rightarrow> string \<Rightarrow> string \<Rightarrow> 'w \<Rightarrow> error option \<times> 'w"
  loadRepoStateAndConfig ::
    "'r option \<Rightarrow> 'w \<Rightarrow> (PipelineState option \<times> 'c option \<times> error option) \<times> 'w"
  docker_New ::
    "string \<Rightarrow> string \<Rightarrow> string \<Rightarrow> string \<Rightarrow> string \<Rightarrow> 'c option \<Rightarrow> 'w
       \<Rightarrow> ('d option \<times> error option) \<times> 'w"

section \<open>Image derivation\<close>

definition deriveImage ::
  "string \<Rightarrow> string \<Rightarrow> string \<Rightarrow> PipelineState option \<Rightarrow> string" where
  "deriveImage language imageOverride defaultRepository state =
     (if imageOverride \<noteq> [] then imageOverride
      else
        let relativeImage = fmt_Sprintf ''google-cloud-%s-generator'' [language];
            tag = (case state of None \<Rightarrow> ''latest'' | Some s \<Rightarrow> ImageTag s)
        in if defaultRepository = [] then fmt_Sprintf ''%s:%s'' [relativeImage, tag]
           else fmt_Sprintf ''%s/%s:%s'' [defaultRepository, relativeImage, tag])"

section \<open>Library lookup\<close>

text \<open>
  The loop of \<^verbatim>\<open>findLibraryIDByApiPath\<close> over \<^verbatim>\<open>state.Libraries\<close>. The result is an
  \<open>option\<close>: \<open>Some\<close> of the string returned, or \<open>None\<close> when the call panics. Reading
  \<^verbatim>\<open>library.ApiPaths\<close> through a nil entry is a nil-pointer panic, and so is reading
  \<^verbatim>\<open>state.Libraries\<close> through a nil \<open>state\<close>.
\<close>

fun findLibraryIDByApiPath_loop :: "LibraryState option list \<Rightarrow> string \<Rightarrow> string option" where
  "findLibraryIDByApiPath_loop [] apiPath = Some []"
| "findLibraryIDByApiPath_loop (library # rest) apiPath =
     (case library of
        None \<Rightarrow> None
      | Some l \<Rightarrow>
          if slices_Contains (ApiPaths l) apiPath then Some (Id_lib l)
          else findLibraryIDByApiPath_loop rest apiPath)"

definition findLibraryIDByApiPath :: "PipelineState option \<Rightarrow> string \<Rightarrow> string option" where
  "findLibraryIDByApiPath state apiPath =
     (case state of
        None \<Rightarrow> None
      | Some s \<Rightarrow> findLibraryIDByApiPath_loop (Libraries s) apiPath)"

section \<open>Repository acquisition\<close>

definition cloneOrOpenLanguageRepo ::
  "('w, 'r, 'st, 'c, 'd) externals \<Rightarrow> string \<Rightarrow> string \<Rightarrow> string \<Rightarrow> 'w
     \<Rightarrow> ('r option \<times> error option) \<times> 'w" where
  "cloneOrOpenLanguageRepo ext workRoot repo ci w =
     (if repo = [] then ((None, Some (errors_New ''repo must be specified'')), w)
      else if isUrl ext repo then
        let repoName = path_Base (strings_TrimSuffix repo ''/'');
            repoPath = filepath_Join ext workRoot repoName
        in gitrepo_NewRepository ext
             \<lparr>Dir = repoPath, MaybeClone = True, RemoteURL = repo, CI = ci\<rparr> w
      else
        (case filepath_Abs ext repo w of
           (absRepoRoot, Some err) \<Rightarrow> ((None, Some err), w)
         | (absRepoRoot, None) \<Rightarrow>
             (case gitrepo_NewRepository ext
                     \<lparr>Dir = absRepoRoot, MaybeClone = False, RemoteURL = [], CI = ci\<rparr> w of
                ((languageRepo, Some err), w1) \<Rightarrow> ((None, Some err), w1)
              | ((languageRepo, None), w1) \<Rightarrow>
                  (case Repository_IsClean ext languageRepo w1 of
                     ((clean, Some err), w2) \<Rightarrow> ((None, Some err), w2)
                   | ((clean, None), w2) \<Rightarrow>
                       if \<not> clean
                       then ((None, Some (errors_New ''language repo must be clean'')), w2)
                       else ((languageRepo, None), w2)))))"

section \<open>Work root\<close>

text \<open>The permission bits \<^verbatim>\<open>0755\<close> are the number 493.\<close>

definition createWorkRoot ::
  "('w, 'r, 'st, 'c, 'd) externals \<Rightarrow> Time \<Rightarrow> string \<Rightarrow> 'w \<Rightarrow> (string \<times> error option) \<times> 'w" where
  "createWorkRoot ext t workRootOverride w =
     (if workRootOverride \<noteq> [] then ((workRootOverride, None), w)
      else
        let path = filepath_Join ext (os_TempDir ext w)
                     (fmt_Sprintf ''librarian-%s'' [formatTimestamp t]);
            err = os_Stat ext path w
        in if os_IsNotExist err then
             (case os_Mkdir ext path 493 w of
                (Some err', w') \<Rightarrow>
                  (([], Some (fmt_Errorf_w
                     ''unable to create temporary working directory '%s': %w'' [path] err')), w')
              | (None, w') \<Rightarrow> ((path, None), w'))
           else
             (case err of
                None \<Rightarrow>
                  (([], Some (fmt_Errorf
                     ''temporary working directory already exists: %s'' [path])), w)
              | Some err' \<Rightarrow>
                  (([], Some (fmt_Errorf_w
                     ''unable to check directory '%s': %w'' [path] err')), w)))"

section \<open>Command state\<close>

text \<open>
  In \<open>createCommandStateForLanguage\<close> a local variable that has the name of a field of
  \<open>commandState\<close> or of a constant of HOL carries a prime.
\<close>

record ('r, 'c, 'd) commandState =
  startTime :: Time
  workRoot :: string
  languageRepo :: "'r option"
  pipelineConfig :: "'c option"
  pipelineState :: "PipelineState option"
  containerConfig :: "'d option"

text \<open>The nine string parameters of \<open>createCommandStateForLanguage\<close> are command flags.\<close>

type_synonym flag = string

definition createCommandStateForLanguage ::
  "('w, 'r, 'st, 'c, 'd) externals \<Rightarrow> flag \<Rightarrow> flag \<Rightarrow> flag \<Rightarrow> flag \<Rightarrow> flag
     \<Rightarrow> flag \<Rightarrow> flag \<Rightarrow> flag \<Rightarrow> flag \<Rightarrow> 'w
     \<Rightarrow> (('r, 'c, 'd) commandState option \<times> error option) \<times> 'w" where
  "createCommandStateForLanguage ext workRootOverride repo language imageOverride
       defaultRepository secretsProject ci uid gid w =
     (let startTime' = time_Now ext w
      in case createWorkRoot ext startTime' workRootOverride w of
           ((workRoot', Some err), w1) \<Rightarrow> ((None, Some err), w1)
         | ((workRoot', None), w1) \<Rightarrow>
             (case cloneOrOpenLanguageRepo ext workRoot' repo ci w1 of
                ((languageRepo', Some err), w2) \<Rightarrow> ((None, Some err), w2)
              | ((languageRepo', None), w2) \<Rightarrow>
                  (case loadRepoStateAndConfig ext languageRepo' w2 of
                     ((ps, config, Some err), w3) \<Rightarrow> ((None, Some err), w3)
                   | ((ps, config, None), w3) \<Rightarrow>
                       let image' = deriveImage language imageOverride defaultRepository ps
                       in (case docker_New ext workRoot' image' secretsProject uid gid config w3 of
                             ((containerConfig', Some err), w4) \<Rightarrow> ((None, Some err), w4)
                           | ((containerConfig', None), w4) \<Rightarrow>
                               ((Some \<lparr>startTime = startTime',
                                       workRoot = workRoot',
                                       languageRepo = languageRepo',
                                       pipelineConfig = config,
                                       pipelineState = ps,
                                       containerConfig = containerConfig'\<rparr>, None), w4)))))"

section \<open>Committing\<close>

definition commitAll ::
  "('w, 'r, 'st, 'c, 'd) externals \<Rightarrow> 'r option \<Rightarrow> string \<Rightarrow> string \<Rightarrow> string \<Rightarrow> 'w
     \<Rightarrow> error option \<times> 'w" where
  "commitAll ext repo msg userName userEmail w =
     (case Repository_AddAll ext repo w of
        ((status, Some err), w1) \<Rightarrow> (Some err, w1)
      | ((status, None), w1) \<Rightarrow>
          if Status_IsClean ext status then (None, w1)
          else Repository_Commit ext repo msg userName userEmail w1)"

section \<open>Release worthiness\<close>

text \<open>
  Modelled from the spec: the type \<open>CommitMessage\<close> is not among the source files, which
  hold only the test table \<^verbatim>\<open>TestIsReleaseWorthy\<close>. The record has the fields of the
  spec's data model, under the names the test table gives them.
\<close>

record CommitMessage =
  Features :: "string list"
  Fixes :: "string list"
  Breaking :: bool
  Docs :: "string list"
  PiperOrigins :: "string list"
  SourceLinks :: "string list"
  CommitHash :: string
  TriggerLibraries :: "string list"
  NoTriggerLibraries :: "string list"

text \<open>
  Modelled from the spec: the function \<open>IsReleaseWorthy\<close> is not among the source files
  either. The decision is the spec's ordered rule list, first match wins: the library
  is in \<open>NoTriggerLibraries\<close>, false; else it is in \<open>TriggerLibraries\<close>, true; else true
  exactly when there is a feature, a fix or a breaking change.
\<close>

definition IsReleaseWorthy :: "CommitMessage \<Rightarrow> string \<Rightarrow> bool" where
  "IsReleaseWorthy message libraryId =
     (if slices_Contains (NoTriggerLibraries message) libraryId then False
      else if slices_Contains (TriggerLibraries message) libraryId then True
      else 0 < length (Features message) \<or> 0 < length (Fixes message) \<or> Breaking message)"

text \<open>
  Modelled from the spec: the zero value \<^verbatim>\<open>CommitMessage{}\<close>, every list and string empty
  and \<open>Breaking\<close> false.
\<close>

definition zeroCommitMessage :: CommitMessage where
  "zeroCommitMessage =
     \<lparr>Features = [], Fixes = [], Breaking = False, Docs = [], PiperOrigins = [],
      SourceLinks = [], CommitHash = [], TriggerLibraries = [], NoTriggerLibraries = []\<rparr>"

section \<open>A sample world\<close>

text \<open>
  An instance of \<open>externals\<close> on which the functions can be run: a clock, a file system
  that is a list of existing paths under the temp root \<^verbatim>\<open>/tmp\<close> with working directory
  \<^verbatim>\<open>/work\<close>, and a store of repositories by directory, each clean or not, with the
  commits made. A repository handle is its directory, a status is whether nothing is
  staged, a container configuration is the pair of work root and image.
\<close>

record sample_world =
  now :: Time
  paths :: "string list"
  repos :: "(string \<times> bool) list"
  commits :: "(string \<times> string \<times> string \<times> string) list"

definition sample_status :: "string option \<Rightarrow> sample_world \<Rightarrow> bool \<times> error option" where
  "sample_status r w =
     (case r of
        None \<Rightarrow> (False, Some (externalError ''no repository'' False))
      | Some d \<Rightarrow>
          (case map_of (repos w) d of
             None \<Rightarrow> (False, Some (externalError ''repository does not exist'' False))
           | Some c \<Rightarrow> (c, None)))"

definition sample_externals ::
  "(sample_world, string, bool, string, string \<times> string) externals" where
  "sample_externals =
     \<lparr>time_Now = now,
      os_TempDir = (\<lambda>w. ''/tmp''),
      os_Stat = (\<lambda>p w.
        if p \<in> set (paths w) then None
        else Some (externalError (''stat '' @ p @ '': no such file or directory'') True)),
      os_Mkdir = (\<lambda>p perm w.
        if p \<in> set (paths w)
        then (Some (externalError (''mkdir '' @ p @ '': file exists'') False), w)
        else (None, w\<lparr>paths := p # paths w\<rparr>)),
      filepath_Join = (\<lambda>a b. a @ ''/'' @ b),
      filepath_Abs = (\<lambda>p w. if take 1 p = ''/'' then (p, None) else (''/work/'' @ p, None)),
      isUrl = (\<lambda>s. take 8 s = ''https://''),
      gitrepo_NewRepository = (\<lambda>opts w.
        case map_of (repos w) (Dir opts) of
          Some c \<Rightarrow> ((Some (Dir opts), None), w)
        | None \<Rightarrow>
            if MaybeClone opts
            then ((Some (Dir opts), None), w\<lparr>repos := (Dir opts, True) # repos w\<rparr>)
            else ((None, Some (externalError ''repository does not exist'' False)), w)),
      Repository_IsClean = (\<lambda>r w. (sample_status r w, w)),
      Repository_AddAll = (\<lambda>r w. (sample_status r w, w)),
      Status_IsClean = (\<lambda>st. st),
      Repository_Commit = (\<lambda>r msg userName userEmail w.
        case r of
          None \<Rightarrow> (Some (externalError ''no repository'' False), w)
        | Some d \<Rightarrow>
            (None, w\<lparr>repos := (d, True) # repos w,
                      commits := commits w @ [(d, msg, userName, userEmail)]\<rparr>)),
      loadRepoStateAndConfig = (\<lambda>r w.
        ((Some \<lparr>ImageTag = ''v2'', Libraries = []\<rparr>, Some ''config'', None), w)),
      docker_New = (\<lambda>root img secretsProject uid gid config w.
        ((Some (root, img), None), w))\<rparr>"

text \<open>
  The instant 2023-10-15 14:30:00 UTC in a world with a clean repository at
  \<^verbatim>\<open>/work/repo\<close> and one with modifications at \<^verbatim>\<open>/work/dirty\<close>.
\<close>

definition sample_time :: Time where
  "sample_time = \<lparr>unixSec = 1697380200, nsec = 0, zoneOffset = 0\<rparr>"

definition sample_start :: sample_world where
  "sample_start =
     \<lparr>now = sample_time,
      paths = [''/tmp''],
      repos = [(''/work/repo'', True), (''/work/dirty'', False)],
      commits = []\<rparr>"

text \<open>The same world once the work directory of \<open>sample_time\<close> exists.\<close>

definition sample_created :: sample_world where
  "sample_created =
     sample_start\<lparr>paths := [''/tmp/librarian-20231015T143000Z'', ''/tmp'']\<rparr>"

text \<open>The same instant on a clock whose zone is two hours east of UTC.\<close>

definition local_time :: Time where
  "local_time = \<lparr>unixSec = 1697380200, nsec = 0, zoneOffset = 7200\<rparr>"

section \<open>Helper facts\<close>

lemma slices_Contains_iff: "slices_Contains xs v \<longleftrightarrow> v \<in> set xs"
  by (induction xs) auto

lemma format_generator:
  "format ''google-cloud-%s-generator'' [l] = ''google-cloud-'' @ l @ ''-generator''"
  by simp

lemma format_tagged: "format ''%s:%s'' [a, b] = a @ '':'' @ b"
  by simp

lemma format_prefixed: "format ''%s/%s:%s'' [r, a, b] = r @ ''/'' @ a @ '':'' @ b"
  by simp

lemma format_librarian: "format ''librarian-%s'' [ts] = ''librarian-'' @ ts"
  by simp

lemma format_exists:
  "format ''temporary working directory already exists: %s'' [p] =
     ''temporary working directory already exists: '' @ p"
  by simp

text \<open>
  The loop over a run of entries that are not nil: the first of them that holds the
  path decides, and when none does the loop goes on with the entries after the run.
\<close>

lemma findLibraryIDByApiPath_loop_find:
  "findLibraryIDByApiPath_loop (map Some ls @ rest) p =
     (case List.find (\<lambda>l. p \<in> set (ApiPaths l)) ls of
        None \<Rightarrow> findLibraryIDByApiPath_loop rest p
      | Some l \<Rightarrow> Some (Id_lib l))"
  by (induction ls) (simp_all add: slices_Contains_iff)

lemma IsReleaseWorthy_iff:
  "IsReleaseWorthy m L \<longleftrightarrow>
     L \<notin> set (NoTriggerLibraries m) \<and>
     (L \<in> set (TriggerLibraries m) \<or> Features m \<noteq> [] \<or> Fixes m \<noteq> [] \<or> Breaking m)"
  by (auto simp: IsReleaseWorthy_def slices_Contains_iff)

text \<open>The layout of \<open>formatTimestamp\<close>, chunk by chunk.\<close>

lemma Time_layout_timestamp:
  "Time_layout c ''20060102T150405Z'' =
     appendInt (year c) 4 @ appendInt (month c) 2 @ appendInt (day c) 2 @ ''T'' @
     appendInt (hour c) 2 @ appendInt (minute c) 2 @ appendInt (second c) 2 @ ''Z''"
  by simp

text \<open>
  The time stamp has the granularity of a second, and it is the UTC rendering when the
  time's zone is UTC; in general it is the UTC rendering of the instant shifted by the
  zone's offset.
\<close>

lemma formatTimestamp_nsec: "formatTimestamp (t\<lparr>nsec := n\<rparr>) = formatTimestamp t"
  by (simp add: formatTimestamp_def Time_Format_def Time_clock_def del: Time_layout.simps)

lemma formatTimestamp_UTC:
  "zoneOffset t = 0 \<Longrightarrow> formatTimestamp (Time_UTC t) = formatTimestamp t"
  by (simp add: formatTimestamp_def Time_Format_def Time_clock_def Time_UTC_def
           del: Time_layout.simps)

lemma formatTimestamp_wall:
  "formatTimestamp t =
     formatTimestamp (Time_UTC (t\<lparr>unixSec := unixSec t + zoneOffset t\<rparr>))"
  by (simp add: formatTimestamp_def Time_Format_def Time_clock_def Time_UTC_def
           del: Time_layout.simps)

text \<open>Where \<open>createWorkRoot\<close> succeeds without an override, and what it returns.\<close>

lemma createWorkRoot_path:
  "createWorkRoot ext t [] w = ((p, None), w') \<Longrightarrow>
   p = filepath_Join ext (os_TempDir ext w) (''librarian-'' @ formatTimestamp t)"
  by (auto simp: createWorkRoot_def fmt_Sprintf_def Let_def format_librarian
           simp del: format.simps split: if_splits prod.splits option.splits)

lemma createWorkRoot_override:
  "workRootOverride \<noteq> [] \<Longrightarrow>
   createWorkRoot ext t workRootOverride w = ((workRootOverride, None), w)"
  by (simp add: createWorkRoot_def)

text \<open>The sample world, stage by stage.\<close>

lemma sample_timestamp: "formatTimestamp sample_time = ''20231015T143000Z''"
  by code_simp

lemma local_timestamp: "formatTimestamp local_time = ''20231015T163000Z''"
  by code_simp

lemma local_timestamp_UTC: "formatTimestamp (Time_UTC local_time) = ''20231015T143000Z''"
  by code_simp

lemma sample_now: "time_Now sample_externals sample_start = sample_time"
  by (simp add: sample_externals_def sample_start_def)

lemma sample_createWorkRoot:
  "createWorkRoot sample_externals (time_Now sample_externals sample_start) [] sample_start =
     ((''/tmp/librarian-20231015T143000Z'', None), sample_created)"
  by (simp add: createWorkRoot_def sample_externals_def sample_timestamp fmt_Sprintf_def
        sample_start_def sample_created_def Let_def)

lemma sample_open_repo:
  "cloneOrOpenLanguageRepo sample_externals ''/tmp/librarian-20231015T143000Z'' ''repo'' ''ci''
     sample_created = ((Some ''/work/repo'', None), sample_created)"
  by (simp add: cloneOrOpenLanguageRepo_def sample_externals_def sample_created_def
        sample_start_def sample_status_def)

lemma sample_open_dirty:
  "cloneOrOpenLanguageRepo sample_externals ''/tmp/librarian-20231015T143000Z'' ''dirty'' ''ci''
     sample_created =
     ((None, Some (errorString ''language repo must be clean'')), sample_created)"
  by (simp add: cloneOrOpenLanguageRepo_def sample_externals_def sample_created_def
        sample_start_def sample_status_def errors_New_def)

lemma sample_load:
  "loadRepoStateAndConfig sample_externals r sample_created =
     ((Some \<lparr>ImageTag = ''v2'', Libraries = []\<rparr>, Some ''config'', None), sample_created)"
  by (simp add: sample_externals_def)

lemma sample_docker:
  "docker_New sample_externals root img ''proj'' ''1'' ''2'' config sample_created =
     ((Some (root, img), None), sample_created)"
  by (simp add: sample_externals_def)

text \<open>The model of \<open>IsReleaseWorthy\<close> passes every row of \<^verbatim>\<open>TestIsReleaseWorthy\<close>.\<close>

lemma TestIsReleaseWorthy_table:
  "\<not> IsReleaseWorthy zeroCommitMessage ''lib-B''"
  "\<not> IsReleaseWorthy (zeroCommitMessage\<lparr>NoTriggerLibraries := [''lib-A'']\<rparr>) ''lib-A''"
  "\<not> IsReleaseWorthy
       (zeroCommitMessage\<lparr>Features := [''new feature''], NoTriggerLibraries := [''lib-A'']\<rparr>)
       ''lib-A''"
  "\<not> IsReleaseWorthy
       (zeroCommitMessage\<lparr>Fixes := [''bug fix''], NoTriggerLibraries := [''lib-A'']\<rparr>) ''lib-A''"
  "\<not> IsReleaseWorthy
       (zeroCommitMessage\<lparr>Breaking := True, NoTriggerLibraries := [''lib-A'']\<rparr>) ''lib-A''"
  "IsReleaseWorthy (zeroCommitMessage\<lparr>TriggerLibraries := [''lib-B'']\<rparr>) ''lib-B''"
  "\<not> IsReleaseWorthy
       (zeroCommitMessage\<lparr>TriggerLibraries := [''lib-B''], NoTriggerLibraries := [''lib-B'']\<rparr>)
       ''lib-B''"
  "IsReleaseWorthy (zeroCommitMessage\<lparr>Features := [''new feature'']\<rparr>) ''lib-C''"
  "IsReleaseWorthy (zeroCommitMessage\<lparr>Fixes := [''bug fix'']\<rparr>) ''lib-D''"
  "IsReleaseWorthy (zeroCommitMessage\<lparr>Breaking := True\<rparr>) ''lib-E''"
  "IsReleaseWorthy (zeroCommitMessage\<lparr>Features := [''f1''], Fixes := [''fx1'']\<rparr>) ''lib-F''"
  "IsReleaseWorthy
     (zeroCommitMessage\<lparr>Features := [''f1''], Fixes := [''fx1''], Breaking := True\<rparr>) ''lib-G''"
  "\<not> IsReleaseWorthy
       (zeroCommitMessage\<lparr>Docs := [''update docs''], PiperOrigins := [''p1''],
          SourceLinks := [''s1''], CommitHash := ''abc''\<rparr>) ''lib-H''"
  by (simp_all add: IsReleaseWorthy_def zeroCommitMessage_def)

section \<open>Release worthiness: results\<close>

text \<open>
  C1. A library listed in \<open>NoTriggerLibraries\<close> is never release worthy, whatever
  \<open>Features\<close>, \<open>Fixes\<close>, \<open>Breaking\<close> and \<open>TriggerLibraries\<close> hold, also when the library is
  listed in \<open>TriggerLibraries\<close> as well.
\<close>

theorem IsReleaseWorthy_NoTrigger:
  "L \<in> set (NoTriggerLibraries m) \<Longrightarrow>
     \<not> IsReleaseWorthy m L
     \<and> \<not> IsReleaseWorthy
           (m\<lparr>Features := fs, Fixes := xs, Breaking := b, TriggerLibraries := ts\<rparr>) L
     \<and> \<not> IsReleaseWorthy (m\<lparr>TriggerLibraries := L # ts\<rparr>) L"
  by (simp add: IsReleaseWorthy_iff)

theorem IsReleaseWorthy_NoTrigger_witness:
  "''lib-B'' \<in> set (NoTriggerLibraries
      (zeroCommitMessage\<lparr>TriggerLibraries := [''lib-B''], NoTriggerLibraries := [''lib-B'']\<rparr>))
   \<and> \<not> IsReleaseWorthy
       (zeroCommitMessage\<lparr>TriggerLibraries := [''lib-B''], NoTriggerLibraries := [''lib-B'']\<rparr>)
       ''lib-B''
   \<and> \<not> IsReleaseWorthy
       (zeroCommitMessage\<lparr>Features := [''new feature''], Fixes := [''bug fix''], Breaking := True,
          TriggerLibraries := [''lib-B''], NoTriggerLibraries := [''lib-B'']\<rparr>)
       ''lib-B''"
  using IsReleaseWorthy_NoTrigger
          [where L = "''lib-B''"
             and m = "zeroCommitMessage\<lparr>TriggerLibraries := [''lib-B''],
                        NoTriggerLibraries := [''lib-B'']\<rparr>"
             and fs = "[''new feature'']" and xs = "[''bug fix'']" and b = True
             and ts = "[''lib-B'']"]
  by (simp add: zeroCommitMessage_def)

text \<open>
  C2. For a library that is not in \<open>NoTriggerLibraries\<close>: if it is in \<open>TriggerLibraries\<close>
  the decision is true, and otherwise it is true exactly when \<open>Features\<close> or \<open>Fixes\<close> is
  not empty or \<open>Breaking\<close> is set. \<open>Docs\<close>, \<open>PiperOrigins\<close>, \<open>SourceLinks\<close> and \<open>CommitHash\<close>
  never change the decision, and the zero-value message is release worthy for no
  library.
\<close>

theorem IsReleaseWorthy_default:
  "L \<notin> set (NoTriggerLibraries m) \<Longrightarrow>
     (L \<in> set (TriggerLibraries m) \<longrightarrow> IsReleaseWorthy m L)
     \<and> (L \<notin> set (TriggerLibraries m) \<longrightarrow>
          IsReleaseWorthy m L =
            (0 < length (Features m) \<or> 0 < length (Fixes m) \<or> Breaking m))
     \<and> IsReleaseWorthy
          (m\<lparr>Docs := ds, PiperOrigins := ps, SourceLinks := ls, CommitHash := h\<rparr>) L =
        IsReleaseWorthy m L
     \<and> \<not> IsReleaseWorthy zeroCommitMessage L'"
  by (simp add: IsReleaseWorthy_iff zeroCommitMessage_def)

theorem IsReleaseWorthy_default_witness:
  "''lib-B'' \<notin> set (NoTriggerLibraries (zeroCommitMessage\<lparr>TriggerLibraries := [''lib-B'']\<rparr>))
   \<and> ''lib-B'' \<in> set (TriggerLibraries (zeroCommitMessage\<lparr>TriggerLibraries := [''lib-B'']\<rparr>))
   \<and> IsReleaseWorthy (zeroCommitMessage\<lparr>TriggerLibraries := [''lib-B'']\<rparr>) ''lib-B''
   \<and> ''lib-C'' \<notin> set (NoTriggerLibraries (zeroCommitMessage\<lparr>Features := [''new feature'']\<rparr>))
   \<and> ''lib-C'' \<notin> set (TriggerLibraries (zeroCommitMessage\<lparr>Features := [''new feature'']\<rparr>))
   \<and> IsReleaseWorthy (zeroCommitMessage\<lparr>Features := [''new feature'']\<rparr>) ''lib-C''
   \<and> \<not> IsReleaseWorthy
         (zeroCommitMessage\<lparr>Docs := [''update docs''], PiperOrigins := [''p1''],
            SourceLinks := [''s1''], CommitHash := ''abc''\<rparr>) ''lib-H''"
  using IsReleaseWorthy_default
          [where L = "''lib-B''" and m = "zeroCommitMessage\<lparr>TriggerLibraries := [''lib-B'']\<rparr>"]
        IsReleaseWorthy_default
          [where L = "''lib-C''" and m = "zeroCommitMessage\<lparr>Features := [''new feature'']\<rparr>"]
        IsReleaseWorthy_default
          [where L = "''lib-H''" and m = zeroCommitMessage and ds = "[''update docs'']"
             and ps = "[''p1'']" and ls = "[''s1'']" and h = "''abc''"]
  by (simp add: zeroCommitMessage_def)

section \<open>Image derivation: results\<close>

text \<open>
  C3. A non-empty \<open>imageOverride\<close> is returned as it is. Otherwise the result is
  \<^verbatim>\<open>google-cloud-<language>-generator:<tag>\<close>, the tag being the state's \<open>ImageTag\<close> when
  the state is not nil and \<^verbatim>\<open>latest\<close> when it is, with \<^verbatim>\<open><defaultRepository>/\<close> in front
  exactly when \<open>defaultRepository\<close> is not empty.
\<close>

theorem deriveImage_result:
  "deriveImage language imageOverride defaultRepository state =
     (if imageOverride \<noteq> [] then imageOverride
      else (if defaultRepository \<noteq> [] then defaultRepository @ ''/'' else [])
           @ ''google-cloud-'' @ language @ ''-generator:''
           @ (case state of None \<Rightarrow> ''latest'' | Some s \<Rightarrow> ImageTag s))"
  by (simp add: deriveImage_def fmt_Sprintf_def Let_def split: option.split)

section \<open>Command state: results\<close>

text \<open>
  C4. \<open>createCommandStateForLanguage\<close> returns either a command state and the nil error
  or the nil state and an error, never both and never neither. The premises name what
  each stage returns when run on the results of the stages before it: creating the
  work root, acquiring the repository, loading state and configuration, building the
  container configuration. The first stage that returns an error ends the function
  with the nil state, that error and the world as that stage left it; when no stage
  fails, the state holds the start time and the value of every stage.
\<close>

theorem createCommandStateForLanguage_all_or_nothing:
  "createWorkRoot ext (time_Now ext w) workRootOverride w = ((root, e1), w1) \<Longrightarrow>
   cloneOrOpenLanguageRepo ext root repo ci w1 = ((r, e2), w2) \<Longrightarrow>
   loadRepoStateAndConfig ext r w2 = ((ps, config, e3), w3) \<Longrightarrow>
   docker_New ext root (deriveImage language imageOverride defaultRepository ps)
     secretsProject uid gid config w3 = ((cc, e4), w4) \<Longrightarrow>
   createCommandStateForLanguage ext workRootOverride repo language imageOverride
       defaultRepository secretsProject ci uid gid w =
     (if e1 \<noteq> None then ((None, e1), w1)
      else if e2 \<noteq> None then ((None, e2), w2)
      else if e3 \<noteq> None then ((None, e3), w3)
      else if e4 \<noteq> None then ((None, e4), w4)
      else ((Some \<lparr>startTime = time_Now ext w, workRoot = root, languageRepo = r,
                    pipelineConfig = config, pipelineState = ps, containerConfig = cc\<rparr>,
             None), w4))
   \<and> (fst (fst (createCommandStateForLanguage ext workRootOverride repo language
                   imageOverride defaultRepository secretsProject ci uid gid w)) = None)
     = (snd (fst (createCommandStateForLanguage ext workRootOverride repo language
                   imageOverride defaultRepository secretsProject ci uid gid w)) \<noteq> None)"
  by (auto simp: createCommandStateForLanguage_def Let_def)

theorem createCommandStateForLanguage_all_or_nothing_witness:
  "createCommandStateForLanguage sample_externals [] ''repo'' ''go'' [] ''us'' ''proj'' ''ci''
       ''1'' ''2'' sample_start =
     ((Some \<lparr>startTime = sample_time,
             workRoot = ''/tmp/librarian-20231015T143000Z'',
             languageRepo = Some ''/work/repo'',
             pipelineConfig = Some ''config'',
             pipelineState = Some \<lparr>ImageTag = ''v2'', Libraries = []\<rparr>,
             containerConfig =
               Some (''/tmp/librarian-20231015T143000Z'', ''us/google-cloud-go-generator:v2'')\<rparr>,
       None), sample_created)
   \<and> createCommandStateForLanguage sample_externals [] ''dirty'' ''go'' [] ''us'' ''proj'' ''ci''
       ''1'' ''2'' sample_start =
     ((None, Some (errorString ''language repo must be clean'')), sample_created)"
  using createCommandStateForLanguage_all_or_nothing
          [OF sample_createWorkRoot sample_open_repo sample_load sample_docker,
           of "''go''" "[]" "''us''"]
        createCommandStateForLanguage_all_or_nothing
          [OF sample_createWorkRoot sample_open_dirty sample_load sample_docker,
           of "''go''" "[]" "''us''"]
  by (simp add: sample_now deriveImage_def fmt_Sprintf_def)

section \<open>Repository acquisition: results\<close>

text \<open>
  C5. \<open>cloneOrOpenLanguageRepo\<close> returns an error for the empty locator. For a locator
  that is not a URL, it resolves the path to an absolute one and opens the repository
  at that directory, without cloning; when the opened repository is not clean it
  returns the error \<^verbatim>\<open>language repo must be clean\<close> and no handle, and when it is clean
  it returns the handle opened at the absolute path.
\<close>

theorem cloneOrOpenLanguageRepo_local:
  "cloneOrOpenLanguageRepo ext root [] ci w =
     ((None, Some (errorString ''repo must be specified'')), w)
   \<and> (repo \<noteq> [] \<and> \<not> isUrl ext repo
        \<and> filepath_Abs ext repo w = (absRepoRoot, None)
        \<and> gitrepo_NewRepository ext
             \<lparr>Dir = absRepoRoot, MaybeClone = False, RemoteURL = [], CI = ci\<rparr> w
           = ((r, None), w1)
        \<and> Repository_IsClean ext r w1 = ((clean, None), w2)
      \<longrightarrow> cloneOrOpenLanguageRepo ext root repo ci w =
            (if clean then ((r, None), w2)
             else ((None, Some (errorString ''language repo must be clean'')), w2)))"
  by (simp add: cloneOrOpenLanguageRepo_def errors_New_def)

theorem cloneOrOpenLanguageRepo_local_witness:
  "cloneOrOpenLanguageRepo sample_externals ''/tmp/w'' [] ''ci'' sample_start =
     ((None, Some (errorString ''repo must be specified'')), sample_start)
   \<and> cloneOrOpenLanguageRepo sample_externals ''/tmp/w'' ''repo'' ''ci'' sample_start =
     ((Some ''/work/repo'', None), sample_start)
   \<and> cloneOrOpenLanguageRepo sample_externals ''/tmp/w'' ''dirty'' ''ci'' sample_start =
     ((None, Some (errorString ''language repo must be clean'')), sample_start)"
  using cloneOrOpenLanguageRepo_local
          [where ext = sample_externals and root = "''/tmp/w''" and ci = "''ci''"
             and w = sample_start and repo = "''repo''" and absRepoRoot = "''/work/repo''"
             and r = "Some ''/work/repo''" and ?w1.0 = sample_start and clean = True
             and ?w2.0 = sample_start]
        cloneOrOpenLanguageRepo_local
          [where ext = sample_externals and root = "''/tmp/w''" and ci = "''ci''"
             and w = sample_start and repo = "''dirty''" and absRepoRoot = "''/work/dirty''"
             and r = "Some ''/work/dirty''" and ?w1.0 = sample_start and clean = False
             and ?w2.0 = sample_start]
  by (simp add: sample_externals_def sample_start_def sample_status_def)

section \<open>Work root: results\<close>

text \<open>
  C6. With no override, when \<^verbatim>\<open>os.Stat\<close> finds the time-stamped work directory,
  \<open>createWorkRoot\<close> returns the empty path and an error whose text names the existing
  path, and leaves the world as it was: no directory is made, nothing is tried again
  and the existing directory is not returned.
\<close>

theorem createWorkRoot_existing_directory:
  "os_Stat ext (filepath_Join ext (os_TempDir ext w) (''librarian-'' @ formatTimestamp t)) w
     = None \<Longrightarrow>
   createWorkRoot ext t [] w =
     (([], Some (errorString
        (''temporary working directory already exists: ''
         @ filepath_Join ext (os_TempDir ext w) (''librarian-'' @ formatTimestamp t)))), w)"
  by (simp add: createWorkRoot_def fmt_Sprintf_def fmt_Errorf_def Let_def
           format_librarian format_exists del: format.simps)

theorem createWorkRoot_existing_directory_witness:
  "os_Stat sample_externals ''/tmp/librarian-20231015T143000Z'' sample_created = None
   \<and> createWorkRoot sample_externals sample_time [] sample_created =
     (([], Some (errorString
        ''temporary working directory already exists: /tmp/librarian-20231015T143000Z'')),
      sample_created)"
  using createWorkRoot_existing_directory
          [where ext = sample_externals and t = sample_time and w = sample_created]
  by (simp add: sample_externals_def sample_timestamp sample_created_def)

text \<open>
  C7. With no override, the work directory is made under the temp root and named
  \<^verbatim>\<open>librarian-<YYYYMMDDTHHMMSSZ>\<close>, the time stamp being the rendering of the start time
  to the second. The time stamp is the wall clock of the start time in its own zone
  followed by the letter \<^verbatim>\<open>Z\<close>, which is not its UTC rendering unless that zone is UTC:
  for the instant 2023-10-15 14:30:00 UTC on a clock two hours east of UTC the
  directory is \<^verbatim>\<open>/tmp/librarian-20231015T163000Z\<close>, while the UTC rendering of that
  instant is \<^verbatim>\<open>20231015T143000Z\<close>.
\<close>

theorem createWorkRoot_local_clock:
  "createWorkRoot sample_externals local_time [] sample_start =
     ((''/tmp/librarian-20231015T163000Z'', None),
      sample_start\<lparr>paths := [''/tmp/librarian-20231015T163000Z'', ''/tmp'']\<rparr>)
   \<and> formatTimestamp (Time_UTC local_time) = ''20231015T143000Z''"
  by (simp add: createWorkRoot_def sample_externals_def local_timestamp local_timestamp_UTC
        fmt_Sprintf_def sample_start_def Let_def)

section \<open>Committing: results\<close>

text \<open>
  C8. \<open>commitAll\<close> first stages everything with \<open>AddAll\<close>. When the status it returns is
  clean, \<open>commitAll\<close> returns the nil error and the world is the one \<open>AddAll\<close> left: no
  commit is made. When the status is not clean, the outcome is that of one call of
  \<open>Commit\<close> with the given message, user name and user email in the world \<open>AddAll\<close> left.
\<close>

theorem commitAll_commits_once:
  "Repository_AddAll ext repo w = ((status, None), w1) \<Longrightarrow>
   commitAll ext repo msg userName userEmail w =
     (if Status_IsClean ext status then (None, w1)
      else Repository_Commit ext repo msg userName userEmail w1)"
  by (simp add: commitAll_def)

theorem commitAll_commits_once_witness:
  "Repository_AddAll sample_externals (Some ''/work/repo'') sample_start =
     ((True, None), sample_start)
   \<and> commitAll sample_externals (Some ''/work/repo'') ''msg'' ''me'' ''me@x'' sample_start =
     (None, sample_start)
   \<and> Repository_AddAll sample_externals (Some ''/work/dirty'') sample_start =
     ((False, None), sample_start)
   \<and> commitAll sample_externals (Some ''/work/dirty'') ''msg'' ''me'' ''me@x'' sample_start =
     (None, sample_start
        \<lparr>repos := (''/work/dirty'', True) # repos sample_start,
          commits := commits sample_start @ [(''/work/dirty'', ''msg'', ''me'', ''me@x'')]\<rparr>)"
  using commitAll_commits_once
          [where ext = sample_externals and repo = "Some ''/work/repo''" and w = sample_start
             and status = True and ?w1.0 = sample_start and msg = "''msg''"
             and userName = "''me''" and userEmail = "''me@x''"]
        commitAll_commits_once
          [where ext = sample_externals and repo = "Some ''/work/dirty''" and w = sample_start
             and status = False and ?w1.0 = sample_start and msg = "''msg''"
             and userName = "''me''" and userEmail = "''me@x''"]
  by (simp add: sample_externals_def sample_start_def sample_status_def)

section \<open>Image derivation with an empty tag\<close>

text \<open>
  C9. With no override and a state that is not nil but records the empty image tag, the
  tag stays empty: the reference ends in a bare colon and is not the \<^verbatim>\<open>latest\<close>
  reference, which is what the nil state gives.
\<close>

theorem deriveImage_empty_tag:
  "ImageTag s = [] \<Longrightarrow>
     deriveImage language [] defaultRepository (Some s) =
       (if defaultRepository = [] then [] else defaultRepository @ ''/'')
       @ ''google-cloud-'' @ language @ ''-generator:''
     \<and> last (deriveImage language [] defaultRepository (Some s)) = CHR '':''
     \<and> deriveImage language [] defaultRepository (Some s) \<noteq>
         deriveImage language [] defaultRepository None
     \<and> deriveImage language [] defaultRepository None =
         deriveImage language [] defaultRepository (Some s) @ ''latest''"
  by (simp add: deriveImage_def fmt_Sprintf_def Let_def)

theorem deriveImage_empty_tag_witness:
  "ImageTag \<lparr>ImageTag = [], Libraries = []\<rparr> = []
   \<and> deriveImage ''go'' [] [] (Some \<lparr>ImageTag = [], Libraries = []\<rparr>) =
       ''google-cloud-go-generator:''
   \<and> deriveImage ''go'' [] ''us'' (Some \<lparr>ImageTag = [], Libraries = []\<rparr>) =
       ''us/google-cloud-go-generator:''
   \<and> deriveImage ''go'' [] [] None = ''google-cloud-go-generator:latest''"
  using deriveImage_empty_tag [of "\<lparr>ImageTag = [], Libraries = []\<rparr>" "''go''" "[]"]
        deriveImage_empty_tag [of "\<lparr>ImageTag = [], Libraries = []\<rparr>" "''go''" "''us''"]
  by simp

section \<open>Library lookup: results\<close>

text \<open>
  C10. For a state that is not nil, \<open>findLibraryIDByApiPath\<close> scans \<open>Libraries\<close> in order.
  When no entry is nil it returns the \<open>Id_lib\<close> of the first library whose \<open>ApiPaths\<close>
  holds the path, and the empty string when no library holds it. When the entries up
  to the first nil one are the libraries \<open>ls\<close>, it returns the \<open>Id_lib\<close> of the first of
  \<open>ls\<close> that holds the path, and panics at the nil entry when none of \<open>ls\<close> does. So the
  result is not for every state that is not nil the first library holding the path: a
  nil entry in front of it is a panic.
\<close>

theorem findLibraryIDByApiPath_first_match:
  "(Libraries s = map Some ls \<longrightarrow>
      findLibraryIDByApiPath (Some s) apiPath =
        Some (case List.find (\<lambda>l. apiPath \<in> set (ApiPaths l)) ls of
                None \<Rightarrow> []
              | Some l \<Rightarrow> Id_lib l))
   \<and> (Libraries s = map Some ls @ None # rest \<longrightarrow>
      findLibraryIDByApiPath (Some s) apiPath =
        (case List.find (\<lambda>l. apiPath \<in> set (ApiPaths l)) ls of
           None \<Rightarrow> None
         | Some l \<Rightarrow> Some (Id_lib l)))"
proof (intro conjI impI)
  assume "Libraries s = map Some ls"
  then have "findLibraryIDByApiPath (Some s) apiPath =
               findLibraryIDByApiPath_loop (map Some ls @ []) apiPath"
    by (simp add: findLibraryIDByApiPath_def)
  then show "findLibraryIDByApiPath (Some s) apiPath =
               Some (case List.find (\<lambda>l. apiPath \<in> set (ApiPaths l)) ls of
                       None \<Rightarrow> []
                     | Some l \<Rightarrow> Id_lib l)"
    unfolding findLibraryIDByApiPath_loop_find by (simp split: option.split)
next
  assume "Libraries s = map Some ls @ None # rest"
  then have "findLibraryIDByApiPath (Some s) apiPath =
               findLibraryIDByApiPath_loop (map Some ls @ None # rest) apiPath"
    by (simp add: findLibraryIDByApiPath_def)
  then show "findLibraryIDByApiPath (Some s) apiPath =
               (case List.find (\<lambda>l. apiPath \<in> set (ApiPaths l)) ls of
                  None \<Rightarrow> None
                | Some l \<Rightarrow> Some (Id_lib l))"
    unfolding findLibraryIDByApiPath_loop_find by (simp split: option.split)
qed

theorem findLibraryIDByApiPath_first_match_witness:
  "Libraries \<lparr>ImageTag = ''v2'', Libraries =
       [Some \<lparr>Id_lib = ''a'', ApiPaths = [''p0'']\<rparr>,
        Some \<lparr>Id_lib = ''b'', ApiPaths = [''p1'', ''p2'']\<rparr>,
        Some \<lparr>Id_lib = ''c'', ApiPaths = [''p1'']\<rparr>]\<rparr> =
     map Some [\<lparr>Id_lib = ''a'', ApiPaths = [''p0'']\<rparr>,
               \<lparr>Id_lib = ''b'', ApiPaths = [''p1'', ''p2'']\<rparr>,
               \<lparr>Id_lib = ''c'', ApiPaths = [''p1'']\<rparr>]
   \<and> findLibraryIDByApiPath (Some \<lparr>ImageTag = ''v2'', Libraries =
       [Some \<lparr>Id_lib = ''a'', ApiPaths = [''p0'']\<rparr>,
        Some \<lparr>Id_lib = ''b'', ApiPaths = [''p1'', ''p2'']\<rparr>,
        Some \<lparr>Id_lib = ''c'', ApiPaths = [''p1'']\<rparr>]\<rparr>) ''p1'' = Some ''b''
   \<and> findLibraryIDByApiPath (Some \<lparr>ImageTag = ''v2'', Libraries =
       [Some \<lparr>Id_lib = ''a'', ApiPaths = [''p0'']\<rparr>,
        Some \<lparr>Id_lib = ''b'', ApiPaths = [''p1'', ''p2'']\<rparr>,
        Some \<lparr>Id_lib = ''c'', ApiPaths = [''p1'']\<rparr>]\<rparr>) ''p9'' = Some []
   \<and> Libraries \<lparr>ImageTag = ''v2'', Libraries =
       [Some \<lparr>Id_lib = ''a'', ApiPaths = [''p0'']\<rparr>, None,
        Some \<lparr>Id_lib = ''b'', ApiPaths = [''p1'']\<rparr>]\<rparr> =
     map Some [\<lparr>Id_lib = ''a'', ApiPaths = [''p0'']\<rparr>]
       @ None # [Some \<lparr>Id_lib = ''b'', ApiPaths = [''p1'']\<rparr>]
   \<and> findLibraryIDByApiPath (Some \<lparr>ImageTag = ''v2'', Libraries =
       [Some \<lparr>Id_lib = ''a'', ApiPaths = [''p0'']\<rparr>, None,
        Some \<lparr>Id_lib = ''b'', ApiPaths = [''p1'']\<rparr>]\<rparr>) ''p0'' = Some ''a''"
  using findLibraryIDByApiPath_first_match
          [where s = "\<lparr>ImageTag = ''v2'', Libraries =
                        [Some \<lparr>Id_lib = ''a'', ApiPaths = [''p0'']\<rparr>,
                         Some \<lparr>Id_lib = ''b'', ApiPaths = [''p1'', ''p2'']\<rparr>,
                         Some \<lparr>Id_lib = ''c'', ApiPaths = [''p1'']\<rparr>]\<rparr>"
             and ls = "[\<lparr>Id_lib = ''a'', ApiPaths = [''p0'']\<rparr>,
                        \<lparr>Id_lib = ''b'', ApiPaths = [''p1'', ''p2'']\<rparr>,
                        \<lparr>Id_lib = ''c'', ApiPaths = [''p1'']\<rparr>]"
             and apiPath = "''p1''"]
        findLibraryIDByApiPath_first_match
          [where s = "\<lparr>ImageTag = ''v2'', Libraries =
                        [Some \<lparr>Id_lib = ''a'', ApiPaths = [''p0'']\<rparr>,
                         Some \<lparr>Id_lib = ''b'', ApiPaths = [''p1'', ''p2'']\<rparr>,
                         Some \<lparr>Id_lib = ''c'', ApiPaths = [''p1'']\<rparr>]\<rparr>"
             and ls = "[\<lparr>Id_lib = ''a'', ApiPaths = [''p0'']\<rparr>,
                        \<lparr>Id_lib = ''b'', ApiPaths = [''p1'', ''p2'']\<rparr>,
                        \<lparr>Id_lib = ''c'', ApiPaths = [''p1'']\<rparr>]"
             and apiPath = "''p9''"]
        findLibraryIDByApiPath_first_match
          [where s = "\<lparr>ImageTag = ''v2'', Libraries =
                        [Some \<lparr>Id_lib = ''a'', ApiPaths = [''p0'']\<rparr>, None,
                         Some \<lparr>Id_lib = ''b'', ApiPaths = [''p1'']\<rparr>]\<rparr>"
             and ls = "[\<lparr>Id_lib = ''a'', ApiPaths = [''p0'']\<rparr>]"
             and rest = "[Some \<lparr>Id_lib = ''b'', ApiPaths = [''p1'']\<rparr>]"
             and apiPath = "''p0''"]
  by simp

text \<open>
  The state whose entries are nil and then the library \<^verbatim>\<open>b\<close> holding \<^verbatim>\<open>p1\<close>: the first
  library holding \<^verbatim>\<open>p1\<close> is \<^verbatim>\<open>b\<close>, and the call panics at the nil entry.
\<close>

theorem findLibraryIDByApiPath_nil_entry:
  "findLibraryIDByApiPath
     (Some \<lparr>ImageTag = ''v2'', Libraries =
        [None, Some \<lparr>Id_lib = ''b'', ApiPaths = [''p1'']\<rparr>]\<rparr>) ''p1'' = None
   \<and> findLibraryIDByApiPath
     (Some \<lparr>ImageTag = ''v2'', Libraries =
        [None, Some \<lparr>Id_lib = ''b'', ApiPaths = [''p1'']\<rparr>]\<rparr>) ''p1'' \<noteq> Some ''b''"
  by (simp add: findLibraryIDByApiPath_def)

end
